theory Spec2Isabelle
  imports Complex_Main "HOL-Library.Sublist"
begin

section \<open>Data model\<close>

text \<open>
  The program is a Streamlit script (\<^verbatim>\<open>app.py\<close>) that reads one sheet of a workbook into a
  pandas data frame and works on six of its columns. A frame restricted to these columns is
  modelled as the list of its rows, in index order. A cell of a text column holds a string or
  is missing (pandas \<^verbatim>\<open>NaN\<close>, here \<open>None\<close>); a cell of the numeric column \<^verbatim>\<open>Amount\<close> holds a
  number or \<^verbatim>\<open>NaN\<close>. Numbers are exact rationals: every finite float is one, and rounding of
  float arithmetic is not modelled.
\<close>

datatype number = NaN | Num rat

record grant_row =
  Top_Level_Primary_Program :: "string option"
  Primary_Strategy :: "string option"
  Organization_Name :: "string option"
  Project_Title :: "string option"
  Request_ID :: "string option"
  Amount :: number

type_synonym dataframe = "grant_row list"

section \<open>Cleaning (lines 44--48)\<close>

text \<open>
  \<^verbatim>\<open>hierarchy_columns\<close> lists five columns: the four levels of the chart and \<^verbatim>\<open>Request: ID\<close>.
  \<^verbatim>\<open>dropna(subset=hierarchy_columns + [value_column])\<close> keeps a row when none of the six
  cells is missing.
\<close>

definition notna :: "grant_row \<Rightarrow> bool" where
  "notna r \<longleftrightarrow>
     Top_Level_Primary_Program r \<noteq> None \<and> Primary_Strategy r \<noteq> None \<and>
     Organization_Name r \<noteq> None \<and> Project_Title r \<noteq> None \<and>
     Request_ID r \<noteq> None \<and> Amount r \<noteq> NaN"

definition dropna :: "dataframe \<Rightarrow> dataframe" where
  "dropna df = filter notna df"

text \<open>The mask \<^verbatim>\<open>sunburst_data[value_column] > 0\<close>; a comparison with \<^verbatim>\<open>NaN\<close> is false.\<close>

fun gt_zero :: "number \<Rightarrow> bool" where
  "gt_zero NaN = False"
| "gt_zero (Num x) = (0 < x)"

definition sunburst_data :: "dataframe \<Rightarrow> dataframe" where
  "sunburst_data default_df = filter (\<lambda>r. gt_zero (Amount r)) (dropna default_df)"

section \<open>Filter options (lines 57--72)\<close>

text \<open>\<^verbatim>\<open>Series.unique()\<close>: the distinct values in order of first appearance.\<close>

fun unique :: "'a list \<Rightarrow> 'a list" where
  "unique [] = []"
| "unique (x # xs) = x # unique (filter (\<lambda>y. y \<noteq> x) xs)"

definition program_options :: "dataframe \<Rightarrow> string option list" where
  "program_options sd = Some ''All'' # unique (map Top_Level_Primary_Program sd)"

definition strategies :: "dataframe \<Rightarrow> string \<Rightarrow> string option list" where
  "strategies sd selected_program =
     (if selected_program \<noteq> ''All''
      then unique (map Primary_Strategy
             (filter (\<lambda>r. Top_Level_Primary_Program r = Some selected_program) sd))
      else unique (map Primary_Strategy sd))"

definition strategy_options :: "dataframe \<Rightarrow> string \<Rightarrow> string option list" where
  "strategy_options sd selected_program = Some ''All'' # strategies sd selected_program"

section \<open>Applying the filters (lines 78--89)\<close>

text \<open>
  \<^verbatim>\<open>pd.to_numeric(..., errors="coerce")\<close> on a column that is numeric already returns it as
  it is.
\<close>

fun to_numeric :: "number \<Rightarrow> number" where
  "to_numeric NaN = NaN"
| "to_numeric (Num x) = Num x"

definition filtered_data :: "dataframe \<Rightarrow> string \<Rightarrow> string \<Rightarrow> dataframe" where
  "filtered_data sd selected_program selected_strategy =
     (let fd = sd;
          fd = (if selected_program \<noteq> ''All''
                then filter (\<lambda>r. Top_Level_Primary_Program r = Some selected_program) fd
                else fd);
          fd = (if selected_strategy \<noteq> ''All''
                then filter (\<lambda>r. Primary_Strategy r = Some selected_strategy) fd
                else fd)
      in map (\<lambda>r. r\<lparr>Amount := to_numeric (Amount r)\<rparr>) fd)"

section \<open>Summary statistics (lines 92--104)\<close>

text \<open>
  The reductions of a numeric column skip \<^verbatim>\<open>NaN\<close> cells (\<^verbatim>\<open>skipna=True\<close>). The sum of no
  values is 0; the median and the mean of no values are \<^verbatim>\<open>NaN\<close>.
\<close>

fun notna_values :: "number list \<Rightarrow> rat list" where
  "notna_values [] = []"
| "notna_values (NaN # col) = notna_values col"
| "notna_values (Num x # col) = x # notna_values col"

definition series_sum :: "number list \<Rightarrow> number" where
  "series_sum col = Num (sum_list (notna_values col))"

definition series_median :: "number list \<Rightarrow> number" where
  "series_median col =
     (let vs = sort (notna_values col); n = length vs
      in if n = 0 then NaN
         else if odd n then Num (vs ! (n div 2))
         else Num ((vs ! (n div 2 - 1) + vs ! (n div 2)) / 2))"

definition series_mean :: "number list \<Rightarrow> number" where
  "series_mean col =
     (let vs = notna_values col
      in if vs = [] then NaN else Num (sum_list vs / of_nat (length vs)))"

text \<open>
  The six values computed in lines 92--104. \<^verbatim>\<open>median_filtered\<close> and \<^verbatim>\<open>mean_filtered\<close> are
  Python's \<^verbatim>\<open>None\<close> when the filtered frame is empty.
\<close>

record metrics =
  total_records :: nat
  total_amount :: number
  median_all :: number
  mean_all :: number
  median_filtered :: "number option"
  mean_filtered :: "number option"

definition calculate_metrics :: "dataframe \<Rightarrow> dataframe \<Rightarrow> metrics" where
  "calculate_metrics sd fd =
     \<lparr>total_records = length fd,
      total_amount = series_sum (map Amount fd),
      median_all = series_median (map Amount sd),
      mean_all = series_mean (map Amount sd),
      median_filtered = (if fd \<noteq> [] then Some (series_median (map Amount fd)) else None),
      mean_filtered = (if fd \<noteq> [] then Some (series_mean (map Amount fd)) else None)\<rparr>"

section \<open>Currency formatting\<close>

text \<open>
  The format \<^verbatim>\<open>f"${x:,.2f}"\<close>: the value rounded to two decimals (the exact value of the
  float, ties to even), the integer part grouped by thousands, the sign after the dollar
  sign. \<^verbatim>\<open>NaN\<close> prints as \<^verbatim>\<open>nan\<close>.
\<close>

definition round_half_even :: "rat \<Rightarrow> int" where
  "round_half_even x =
     (let f = \<lfloor>x\<rfloor>; d = x - of_int f
      in if d < 1 / 2 then f else if 1 / 2 < d then f + 1 else if even f then f else f + 1)"

definition digit :: "nat \<Rightarrow> char" where
  "digit n = ''0123456789'' ! (n mod 10)"

fun str_nat :: "nat \<Rightarrow> string" where
  "str_nat n = (if n < 10 then [digit n] else str_nat (n div 10) @ [digit n])"

fun thousands :: "nat \<Rightarrow> string" where
  "thousands n =
     (if n < 1000 then str_nat n
      else thousands (n div 1000) @ '','' @ [digit (n div 100), digit (n div 10), digit n])"

declare str_nat.simps [simp del] thousands.simps [simp del]

definition format_2f :: "rat \<Rightarrow> string" where
  "format_2f x =
     (let c = nat (round_half_even (\<bar>x\<bar> * 100))
      in (if x < 0 then ''-'' else '''') @ thousands (c div 100) @ ''.'' @
         [digit (c div 10), digit c])"

fun format_currency :: "number \<Rightarrow> string" where
  "format_currency NaN = ''$nan''"
| "format_currency (Num x) = ''$'' @ format_2f x"

section \<open>Chart data and display table (lines 106--125, 164--169)\<close>

definition SALESFORCE_BASE_URL :: string where
  "SALESFORCE_BASE_URL = ''https://hewlett.lightning.force.com/lightning/r/Request__c/''"

text \<open>A text cell interpolated into an f-string; a missing cell is a float \<^verbatim>\<open>NaN\<close>.\<close>

fun str_text :: "string option \<Rightarrow> string" where
  "str_text None = ''nan''"
| "str_text (Some s) = s"

definition salesforce_link :: "grant_row \<Rightarrow> string" where
  \<open>salesforce_link r =
     ''<a href="'' @ SALESFORCE_BASE_URL @ str_text (Request_ID r) @
     ''/view" target="_blank">'' @ str_text (Project_Title r) @ ''</a>''\<close>

text \<open>
  The frame after lines 107--113, handed to \<^verbatim>\<open>px.sunburst\<close>: the link column is added and
  the request identifier dropped.
\<close>

record chart_row =
  c_Top_Level_Primary_Program :: "string option"
  c_Primary_Strategy :: "string option"
  c_Organization_Name :: "string option"
  c_Project_Title :: "string option"
  c_Amount :: number
  c_Salesforce_Link :: string

definition chart_data :: "dataframe \<Rightarrow> chart_row list" where
  "chart_data fd =
     map (\<lambda>r. \<lparr>c_Top_Level_Primary_Program = Top_Level_Primary_Program r,
                c_Primary_Strategy = Primary_Strategy r,
                c_Organization_Name = Organization_Name r,
                c_Project_Title = Project_Title r,
                c_Amount = Amount r,
                c_Salesforce_Link = salesforce_link r\<rparr>) fd"

text \<open>
  The table of line 166 keeps five columns, in the order of \<^verbatim>\<open>table_columns\<close>. Line 169
  assigns the formatted strings to the column \<^verbatim>\<open>Amount\<close> itself, so the type of that
  column changes from number to text: the row type is polymorphic in it.
\<close>

definition table_columns :: "string list" where
  "table_columns =
     [''Top Level Primary Program'', ''Primary Strategy'', ''Organization: Organization Name'',
      ''Salesforce Link'', ''Amount'']"

record 'a table_row =
  t_Top_Level_Primary_Program :: "string option"
  t_Primary_Strategy :: "string option"
  t_Organization_Name :: "string option"
  t_Salesforce_Link :: string
  t_Amount :: 'a

definition select_table_columns :: "chart_row list \<Rightarrow> number table_row list" where
  "select_table_columns cd =
     map (\<lambda>r. \<lparr>t_Top_Level_Primary_Program = c_Top_Level_Primary_Program r,
                t_Primary_Strategy = c_Primary_Strategy r,
                t_Organization_Name = c_Organization_Name r,
                t_Salesforce_Link = c_Salesforce_Link r,
                t_Amount = c_Amount r\<rparr>) cd"

definition format_Amount :: "number table_row list \<Rightarrow> string table_row list" where
  "format_Amount t =
     map (\<lambda>r. \<lparr>t_Top_Level_Primary_Program = t_Top_Level_Primary_Program r,
                t_Primary_Strategy = t_Primary_Strategy r,
                t_Organization_Name = t_Organization_Name r,
                t_Salesforce_Link = t_Salesforce_Link r,
                t_Amount = format_currency (t_Amount r)\<rparr>) t"

definition display_table :: "dataframe \<Rightarrow> string table_row list" where
  "display_table fd = format_Amount (select_table_columns (chart_data fd))"

section \<open>CSV export (line 181)\<close>

text \<open>
  Modelled from the spec: \<^verbatim>\<open>DataFrame.to_csv\<close> is code of the pandas library, not of the
  source. The spec describes its result as a text with a header row in the column order of
  the display table and one row per filtered record. The model takes the defaults of
  \<^verbatim>\<open>to_csv(index=False)\<close>: fields separated by commas, lines ended by a line feed, a missing
  cell written as the empty field; a field holding a comma, a double quote, a line feed or a
  carriage return is enclosed in double quotes, with every double quote in it doubled.
\<close>

definition quotechar :: char where
  "quotechar = CHR 0x22"

definition special :: "char \<Rightarrow> bool" where
  "special c \<longleftrightarrow> c = CHR '','' \<or> c = quotechar \<or> c = CHR 0x0A \<or> c = CHR 0x0D"

fun double_quotes :: "string \<Rightarrow> string" where
  "double_quotes [] = []"
| "double_quotes (c # s) = (if c = quotechar then [c, c] else [c]) @ double_quotes s"

definition csv_field :: "string \<Rightarrow> string" where
  "csv_field s = (if list_ex special s then [quotechar] @ double_quotes s @ [quotechar] else s)"

fun csv_fields :: "string list \<Rightarrow> string" where
  "csv_fields [] = []"
| "csv_fields [f] = csv_field f"
| "csv_fields (f # fs) = csv_field f @ '','' @ csv_fields fs"

definition csv_line :: "string list \<Rightarrow> string" where
  "csv_line fs = csv_fields fs @ [CHR 0x0A]"

fun na_rep :: "string option \<Rightarrow> string" where
  "na_rep None = []"
| "na_rep (Some s) = s"

definition table_cells :: "string table_row \<Rightarrow> string list" where
  "table_cells r =
     [na_rep (t_Top_Level_Primary_Program r), na_rep (t_Primary_Strategy r),
      na_rep (t_Organization_Name r), t_Salesforce_Link r, t_Amount r]"

definition to_csv :: "string table_row list \<Rightarrow> string" where
  "to_csv t = csv_line table_columns @ concat (map (\<lambda>r. csv_line (table_cells r)) t)"

section \<open>The page (lines 18--201)\<close>

text \<open>
  A run of the script is modelled by the list of elements it puts on the page, in order.
  Layout containers (\<^verbatim>\<open>st.columns\<close>, the spinner) are left out; the chart and the HTML
  table are elements that carry the data they are drawn from. An exception is modelled by
  its message, the text of \<^verbatim>\<open>str(e)\<close>.
\<close>

datatype exception = Exception string

datatype metric_value = Int_value nat | Str_value string

datatype element =
    Title string
  | Warning string
  | Error string
  | Sidebar_header string
  | Selectbox string "string option list"
  | Button string
  | Plotly_chart "chart_row list"
  | Markdown string
  | Metric string metric_value
  | Subheader string
  | Html_table "string table_row list"
  | Download_button string string string
  | File_uploader string
  | Info string

text \<open>Lines 130--162: the six metric widgets and the dividers between their rows.\<close>

definition metric_widgets :: "metrics \<Rightarrow> element list" where
  "metric_widgets m =
     [Markdown ''---'',
      Metric ''Total Records'' (Int_value (total_records m)),
      Metric ''Total Amount'' (Str_value (format_currency (total_amount m))),
      Markdown ''---'',
      Metric ''Median (All Grants)'' (Str_value (format_currency (median_all m))),
      (case median_filtered m of
         Some v \<Rightarrow> Metric ''Median (Filtered)'' (Str_value (format_currency v))
       | None \<Rightarrow> Metric ''Median (Filtered)'' (Str_value ''No Data'')),
      Markdown ''---'',
      Metric ''Mean (All Grants)'' (Str_value (format_currency (mean_all m))),
      (case mean_filtered m of
         Some v \<Rightarrow> Metric ''Mean (Filtered)'' (Str_value (format_currency v))
       | None \<Rightarrow> Metric ''Mean (Filtered)'' (Str_value ''No Data''))]"

text \<open>Lines 54--193: the branch for a cleaned dataset that is not empty.\<close>

definition dashboard :: "dataframe \<Rightarrow> string \<Rightarrow> string \<Rightarrow> element list" where
  "dashboard sd selected_program selected_strategy =
     (let fd = filtered_data sd selected_program selected_strategy;
          m = calculate_metrics sd fd;
          t = display_table fd
      in [Sidebar_header ''Filter Options'',
          Selectbox ''Select Top Level Program:'' (program_options sd),
          Selectbox ''Select Primary Strategy:'' (strategy_options sd selected_program),
          Button ''Reset Filters'',
          Plotly_chart (chart_data fd)] @
         metric_widgets m @
         [Subheader ''Filtered Data Table'',
          Html_table t,
          Download_button ''Download Filtered Data as CSV'' (to_csv t) ''filtered_data.csv'',
          Html_table t])"

text \<open>
  The whole script. \<open>loaded\<close> is the outcome of lines 37--44, the call of
  \<^verbatim>\<open>pd.read_excel\<close> and the selection of the six columns: the exception one of them raised
  (no file, no such sheet, a column missing), or the frame of the six columns.
  \<open>selected_program\<close> and \<open>selected_strategy\<close> are what the two select boxes return, and
  \<open>uploaded\<close> says whether the uploader holds a file.
\<close>

definition app :: "exception + dataframe \<Rightarrow> string \<Rightarrow> string \<Rightarrow> bool \<Rightarrow> element list" where
  "app loaded selected_program selected_strategy uploaded =
     [Title ''Dynamic Sunburst Diagram of 2024 Grants''] @
     (case loaded of
        Inl (Exception e) \<Rightarrow> [Error (''Error loading default data: '' @ e)]
      | Inr default_df \<Rightarrow>
          (let sd = sunburst_data default_df
           in if sd = []
              then [Warning ''No default data available to display. Please upload a dataset.'']
              else dashboard sd selected_program selected_strategy)) @
     [File_uploader ''Upload the Grants Excel File''] @
     (if uploaded
      then [Info ''Custom data handling not fully implemented here. Follow similar steps as above for uploaded data.'']
      else [])"

text \<open>The metric widgets among the elements of a page, as pairs of label and value.\<close>

fun metrics_shown :: "element list \<Rightarrow> (string \<times> metric_value) list" where
  "metrics_shown [] = []"
| "metrics_shown (Metric label v # es) = (label, v) # metrics_shown es"
| "metrics_shown (e # es) = metrics_shown es"

section \<open>Reading the exported CSV back\<close>

text \<open>
  Modelled from the spec: the spec speaks of parsing the exported CSV, and the source has no
  parser. This is a reader for the dialect that \<open>to_csv\<close> writes, run over the text
  character by character: fields are separated by commas and records ended by a line feed, a carriage
  return or both; a field that starts with a double quote runs to the closing quote, and
  two double quotes inside it stand for one. The state holds the current field and the
  current record in reverse, and the finished records in reverse.
\<close>

datatype mode = Field_start | In_plain | In_quoted | Quote_in_quoted | After_CR

type_synonym reader = "mode \<times> string \<times> string list \<times> string list list"

definition plain_char :: "mode \<Rightarrow> string \<Rightarrow> string list \<Rightarrow> string list list \<Rightarrow> char \<Rightarrow> reader" where
  "plain_char st field record records c =
     (if c = CHR '','' then (Field_start, [], rev field # record, records)
      else if c = CHR 0x0A then (Field_start, [], [], rev (rev field # record) # records)
      else if c = CHR 0x0D then (After_CR, [], [], rev (rev field # record) # records)
      else if c = quotechar \<and> st = Field_start then (In_quoted, field, record, records)
      else (In_plain, c # field, record, records))"

fun step :: "reader \<Rightarrow> char \<Rightarrow> reader" where
  "step (In_quoted, field, record, records) c =
     (if c = quotechar then (Quote_in_quoted, field, record, records)
      else (In_quoted, c # field, record, records))"
| "step (Quote_in_quoted, field, record, records) c =
     (if c = quotechar then (In_quoted, c # field, record, records)
      else plain_char In_plain field record records c)"
| "step (After_CR, field, record, records) c =
     (if c = CHR 0x0A then (Field_start, field, record, records)
      else plain_char Field_start field record records c)"
| "step (Field_start, field, record, records) c = plain_char Field_start field record records c"
| "step (In_plain, field, record, records) c = plain_char In_plain field record records c"

fun finish :: "reader \<Rightarrow> string list list" where
  "finish (st, field, record, records) =
     (if (st = Field_start \<or> st = After_CR) \<and> record = [] then rev records
      else rev (rev (rev field # record) # records))"

definition read_csv :: "string \<Rightarrow> string list list" where
  "read_csv text = finish (foldl step (Field_start, [], [], []) text)"

text \<open>The modes in which a comma or a line feed ends the current field.\<close>

definition ready :: "mode \<Rightarrow> bool" where
  "ready m \<longleftrightarrow> m = Field_start \<or> m = In_plain \<or> m = Quote_in_quoted"

text \<open>
  Modelled from the spec: reading an amount back from its currency text. The source only
  writes the text; this reader drops the dollar sign and the separators and reads the digits
  that remain as a number of cents.
\<close>

definition is_digit :: "char \<Rightarrow> bool" where
  "is_digit c \<longleftrightarrow> c \<in> set ''0123456789''"

definition digit_value :: "char \<Rightarrow> nat" where
  "digit_value c = of_char c - 48"

definition digits_value :: "string \<Rightarrow> nat" where
  "digits_value s = foldl (\<lambda>n c. 10 * n + digit_value c) 0 s"

definition parse_currency :: "string \<Rightarrow> rat" where
  "parse_currency s =
     (if CHR ''-'' \<in> set s then - 1 else 1) * of_nat (digits_value (filter is_digit s)) / 100"


section \<open>Example data\<close>

definition row :: "string option \<Rightarrow> string option \<Rightarrow> string option \<Rightarrow> string option \<Rightarrow>
    string option \<Rightarrow> number \<Rightarrow> grant_row" where
  "row p s org t i a =
     \<lparr>Top_Level_Primary_Program = p, Primary_Strategy = s, Organization_Name = org,
      Project_Title = t, Request_ID = i, Amount = a\<rparr>"

definition r1 :: grant_row where
  "r1 = row (Some ''ProgA'') (Some ''Strat1'') (Some ''OrgX'') (Some ''Proj1'') (Some ''R1'') (Num 100)"

definition r2 :: grant_row where
  "r2 = row (Some ''ProgA'') (Some ''Strat2'') (Some ''OrgY'') (Some ''Proj2'') (Some ''R2'') (Num 300)"

definition r3 :: grant_row where
  "r3 = row (Some ''ProgB'') (Some ''Strat1'') (Some ''OrgZ'') (Some ''Proj3'') (Some ''R3'') (Num 200)"

definition r_noid :: grant_row where
  "r_noid = row (Some ''ProgA'') (Some ''Strat1'') (Some ''OrgX'') (Some ''Proj4'') None (Num 100)"

definition r_zero :: grant_row where
  "r_zero = row (Some ''ProgA'') (Some ''Strat1'') (Some ''OrgX'') (Some ''Proj5'') (Some ''R5'') (Num 0)"

definition r_noorg :: grant_row where
  "r_noorg = row (Some ''ProgB'') (Some ''Strat1'') None (Some ''Proj6'') (Some ''R6'') (Num 50)"

definition r_all :: grant_row where
  "r_all = row (Some ''All'') (Some ''Strat3'') (Some ''OrgW'') (Some ''Proj7'') (Some ''R7'') (Num 10)"

definition r_quotes :: grant_row where
  \<open>r_quotes = row (Some ''Prog, A'') (Some ''Strat1'') (Some ''Org "X"'') (Some ''Proj1'')
     (Some ''R1'') (Num 1234567)\<close>

lemmas example_rows =
  row_def r1_def r2_def r3_def r_noid_def r_zero_def r_noorg_def r_all_def

section \<open>Properties of cleaning\<close>

lemma to_numeric_id: "to_numeric a = a"
  by (cases a) simp_all

lemma gt_zero_iff: "gt_zero a \<longleftrightarrow> (\<exists>x. a = Num x \<and> 0 < x)"
  by (cases a) simp_all

lemma sunburst_data_filter:
  "sunburst_data df = filter (\<lambda>r. notna r \<and> gt_zero (Amount r)) df"
  by (simp add: sunburst_data_def dropna_def conj_commute)


text \<open>
  C1, as stated: cleaning removes exactly the rows with a missing program, strategy,
  organization or project title, or with an amount \<open>\<le> 0\<close>. The row \<open>r_noid\<close> has all four
  fields and the amount 100, and cleaning removes it: its request identifier is missing.
\<close>

theorem sunburst_data_four_fields_counterexample:
  "Top_Level_Primary_Program r_noid = Some ''ProgA'' \<and> Primary_Strategy r_noid = Some ''Strat1'' \<and>
   Organization_Name r_noid = Some ''OrgX'' \<and> Project_Title r_noid = Some ''Proj4'' \<and>
   Amount r_noid = Num 100 \<and> sunburst_data [r_noid] = []"
  by (simp add: example_rows sunburst_data_def dropna_def notna_def)

text \<open>
  C1, amended: cleaning removes exactly the rows with a missing value in one of the six
  columns (program, strategy, organization, project title, request identifier, amount) or an
  amount \<open>\<le> 0\<close>; it keeps all other rows unchanged and in order, and is idempotent.
\<close>

theorem sunburst_data_exact:
  "sunburst_data df =
     filter (\<lambda>r. Top_Level_Primary_Program r \<noteq> None \<and> Primary_Strategy r \<noteq> None \<and>
                 Organization_Name r \<noteq> None \<and> Project_Title r \<noteq> None \<and>
                 Request_ID r \<noteq> None \<and> (\<exists>a. Amount r = Num a \<and> 0 < a)) df
   \<and> sunburst_data (sunburst_data df) = sunburst_data df"
proof
  have same: "(notna r \<and> gt_zero (Amount r)) =
      (Top_Level_Primary_Program r \<noteq> None \<and> Primary_Strategy r \<noteq> None \<and>
       Organization_Name r \<noteq> None \<and> Project_Title r \<noteq> None \<and>
       Request_ID r \<noteq> None \<and> (\<exists>a. Amount r = Num a \<and> 0 < a))" for r
    by (auto simp: notna_def gt_zero_iff)
  show "sunburst_data df =
     filter (\<lambda>r. Top_Level_Primary_Program r \<noteq> None \<and> Primary_Strategy r \<noteq> None \<and>
                 Organization_Name r \<noteq> None \<and> Project_Title r \<noteq> None \<and>
                 Request_ID r \<noteq> None \<and> (\<exists>a. Amount r = Num a \<and> 0 < a)) df"
    unfolding sunburst_data_filter same ..
  show "sunburst_data (sunburst_data df) = sunburst_data df"
    by (simp add: sunburst_data_filter)
qed

theorem sunburst_data_exact_witness:
  "sunburst_data [r1, r_noid, r_zero, r_noorg, r2] = [r1, r2] \<and>
   sunburst_data (sunburst_data [r1, r_noid, r_zero, r_noorg, r2]) = [r1, r2]"
  using sunburst_data_exact [of "[r1, r_noid, r_zero, r_noorg, r2]"]
  by (simp add: example_rows sunburst_data_def dropna_def notna_def)

section \<open>Properties of the filter options\<close>

lemma set_unique: "set (unique xs) = set xs"
  by (induction xs rule: unique.induct) auto

lemma distinct_unique: "distinct (unique xs)"
  by (induction xs rule: unique.induct) (auto simp: set_unique)

text \<open>
  C3: the strategies offered for a selected program \<open>P\<close> are exactly the distinct strategy
  values of the records whose program is \<open>P\<close>; for the selection \<open>All\<close> they are the distinct
  strategy values of the whole dataset. The select box lists them after the entry \<open>All\<close>.
\<close>

theorem strategies_exact:
  "set (strategies sd P) =
     (if P = ''All'' then Primary_Strategy ` set sd
      else Primary_Strategy ` {r \<in> set sd. Top_Level_Primary_Program r = Some P})
   \<and> distinct (strategies sd P)
   \<and> strategy_options sd P = Some ''All'' # strategies sd P"
  by (simp add: strategies_def strategy_options_def set_unique distinct_unique)

theorem strategies_exact_witness:
  "set (strategies [r1, r2, r3] ''ProgA'') = {Some ''Strat1'', Some ''Strat2''} \<and>
   set (strategies [r1, r2, r3] ''All'') = {Some ''Strat1'', Some ''Strat2''} \<and>
   distinct (strategies [r1, r2, r3] ''ProgA'')"
  using strategies_exact [of "[r1, r2, r3]" "''ProgA''"] strategies_exact [of "[r1, r2, r3]" "''All''"]
  by (simp add: example_rows strategies_def)

section \<open>Properties of the filters\<close>

lemma numeric_rows: "map (\<lambda>r. r\<lparr>Amount := to_numeric (Amount r)\<rparr>) fd = fd"
  by (induction fd) (simp_all add: to_numeric_id)

lemma filtered_data_filter:
  "filtered_data sd p s =
     filter (\<lambda>r. (p = ''All'' \<or> Top_Level_Primary_Program r = Some p) \<and>
                 (s = ''All'' \<or> Primary_Strategy r = Some s)) sd"
  by (simp add: filtered_data_def Let_def numeric_rows)

text \<open>
  C4: the selection \<open>(All, All)\<close> returns the dataset itself: the same records, in the same
  order.
\<close>

theorem filtered_data_All_All:
  "filtered_data sd ''All'' ''All'' = sd"
  by (simp add: filtered_data_def Let_def numeric_rows)

theorem filtered_data_All_All_witness:
  "filtered_data [r1, r2, r3] ''All'' ''All'' = [r1, r2, r3]"
  using filtered_data_All_All [of "[r1, r2, r3]"] .

text \<open>
  C9: the value \<open>All\<close> constrains nothing on its dimension, whatever the records hold, also
  when a record's program or strategy is the string \<open>All\<close>. So when the dataset has a record
  of program \<open>All\<close> and a record of another program, no choice of the program selector
  returns exactly the records of program \<open>All\<close>.
\<close>

theorem All_is_no_constraint:
  "filtered_data sd ''All'' s =
     (if s = ''All'' then sd else filter (\<lambda>r. Primary_Strategy r = Some s) sd) \<and>
   filtered_data sd p ''All'' =
     (if p = ''All'' then sd else filter (\<lambda>r. Top_Level_Primary_Program r = Some p) sd) \<and>
   (r \<in> set sd \<and> Top_Level_Primary_Program r = Some ''All'' \<and>
    r' \<in> set sd \<and> Top_Level_Primary_Program r' \<noteq> Some ''All'' \<longrightarrow>
    (\<forall>q. filtered_data sd q ''All'' \<noteq> filter (\<lambda>x. Top_Level_Primary_Program x = Some ''All'') sd))"
proof (intro conjI impI allI)
  show "filtered_data sd ''All'' s =
     (if s = ''All'' then sd else filter (\<lambda>r. Primary_Strategy r = Some s) sd)"
    by (simp add: filtered_data_filter)
  show "filtered_data sd p ''All'' =
     (if p = ''All'' then sd else filter (\<lambda>r. Top_Level_Primary_Program r = Some p) sd)"
    by (simp add: filtered_data_filter)
next
  fix q
  assume a: "r \<in> set sd \<and> Top_Level_Primary_Program r = Some ''All'' \<and>
    r' \<in> set sd \<and> Top_Level_Primary_Program r' \<noteq> Some ''All''"
  let ?only = "filter (\<lambda>x. Top_Level_Primary_Program x = Some ''All'') sd"
  show "filtered_data sd q ''All'' \<noteq> ?only"
  proof (cases "q = ''All''")
    case True
    from a have "r' \<in> set (filtered_data sd q ''All'')" "r' \<notin> set ?only"
      using True by (simp_all add: filtered_data_filter)
    then show ?thesis by metis
  next
    case False
    from a have "r \<notin> set (filtered_data sd q ''All'')" "r \<in> set ?only"
      using False by (auto simp: filtered_data_filter)
    then show ?thesis by metis
  qed
qed

theorem All_is_no_constraint_witness:
  "filtered_data [r_all, r1] ''All'' ''Strat1'' = [r1] \<and>
   filtered_data [r_all, r1] ''All'' ''All'' = [r_all, r1] \<and>
   r_all \<in> set [r_all, r1] \<and> Top_Level_Primary_Program r_all = Some ''All'' \<and>
   r1 \<in> set [r_all, r1] \<and> Top_Level_Primary_Program r1 \<noteq> Some ''All'' \<and>
   (\<forall>q. filtered_data [r_all, r1] q ''All'' \<noteq> [r_all])"
  using All_is_no_constraint [of "[r_all, r1]" "''Strat1''" "''All''" r_all r1]
  by (simp add: example_rows filtered_data_filter)

text \<open>
  C10: filtering never reorders records: the filtered dataset is a subsequence of the
  dataset it was taken from.
\<close>

theorem filtered_data_subseq:
  "subseq (filtered_data sd p s) sd"
  by (simp add: filtered_data_filter)

theorem filtered_data_subseq_witness:
  "subseq (filtered_data [r1, r2, r3] ''ProgA'' ''All'') [r1, r2, r3] \<and>
   filtered_data [r1, r2, r3] ''ProgA'' ''All'' = [r1, r2]"
  using filtered_data_subseq [of "[r1, r2, r3]" "''ProgA''" "''All''"]
  by (simp add: filtered_data_filter example_rows)

section \<open>Properties of the summary statistics\<close>

lemmas format_eval =
  format_2f_def round_half_even_def thousands.simps str_nat.simps digit_def









section \<open>Properties of the display table\<close>

lemma display_table_rows:
  "display_table fd =
     map (\<lambda>r. \<lparr>t_Top_Level_Primary_Program = Top_Level_Primary_Program r,
                t_Primary_Strategy = Primary_Strategy r,
                t_Organization_Name = Organization_Name r,
                t_Salesforce_Link = salesforce_link r,
                t_Amount = format_currency (Amount r)\<rparr>) fd"
  by (simp add: display_table_def format_Amount_def select_table_columns_def chart_data_def
        del: format_currency.simps)

lemma format_100: "format_currency (Num 100) = ''$100.00''"
  by (simp add: format_eval)

lemma floor_2560025_256: "\<lfloor>2560025 / 256 :: rat\<rfloor> = 10000"
  by (simp add: floor_eq_iff)

lemma round_100_1024: "round_half_even (\<bar>100 + 1 / 1024\<bar> * 100) = 10000"
  by (simp add: round_half_even_def Let_def floor_2560025_256)

lemma format_100_1024: "format_currency (Num (100 + 1 / 1024)) = ''$100.00''"
  unfolding format_currency.simps format_2f_def round_100_1024
  by (simp add: thousands.simps str_nat.simps digit_def)

text \<open>
  C6, as stated: after the table is built the numeric amount is still there, in a field of its
  own. The table built from the record \<open>r1\<close> (amount 100) has five fields, and the field
  \<^verbatim>\<open>Amount\<close> holds the text \<^verbatim>\<open>$100.00\<close>; the record with the amount 100.0009765625 gives
  the same table, so the number cannot be read from it.
\<close>

theorem display_table_counterexample:
  \<open>display_table [r1] =
     [\<lparr>t_Top_Level_Primary_Program = Some ''ProgA'',
       t_Primary_Strategy = Some ''Strat1'',
       t_Organization_Name = Some ''OrgX'',
       t_Salesforce_Link =
         ''<a href="https://hewlett.lightning.force.com/lightning/r/Request__c/R1/view" target="_blank">Proj1</a>'',
       t_Amount = ''$100.00''\<rparr>] \<and>
   Amount (r1\<lparr>Amount := Num (100 + 1 / 1024)\<rparr>) \<noteq> Amount r1 \<and>
   display_table [r1\<lparr>Amount := Num (100 + 1 / 1024)\<rparr>] = display_table [r1]\<close>
proof -
  have a: "Amount r1 = Num 100" "Amount (r1\<lparr>Amount := Num (100 + 1 / 1024)\<rparr>) = Num (100 + 1 / 1024)"
    by (simp_all add: example_rows)
  have "display_table [r1] =
     [\<lparr>t_Top_Level_Primary_Program = Top_Level_Primary_Program r1,
       t_Primary_Strategy = Primary_Strategy r1,
       t_Organization_Name = Organization_Name r1,
       t_Salesforce_Link = salesforce_link r1,
       t_Amount = ''$100.00''\<rparr>]"
    unfolding display_table_rows by (simp add: a format_100 del: format_currency.simps)
  moreover have "salesforce_link (r1\<lparr>Amount := Num (100 + 1 / 1024)\<rparr>) = salesforce_link r1"
    by (simp add: salesforce_link_def)
  then have "display_table [r1\<lparr>Amount := Num (100 + 1 / 1024)\<rparr>] = display_table [r1]"
    unfolding display_table_rows list.map a format_100 format_100_1024 by simp
  ultimately show ?thesis
    by (simp add: example_rows salesforce_link_def SALESFORCE_BASE_URL_def)
qed

text \<open>
  C6, amended: the display-table build step overwrites the column \<^verbatim>\<open>Amount\<close> with the
  currency string of each record's amount. The table keeps the program, the strategy, the
  organization and the link, one row per record in order, and has no numeric amount field.
\<close>

theorem display_table_exact:
  "display_table fd =
     map (\<lambda>r. \<lparr>t_Top_Level_Primary_Program = Top_Level_Primary_Program r,
                t_Primary_Strategy = Primary_Strategy r,
                t_Organization_Name = Organization_Name r,
                t_Salesforce_Link = salesforce_link r,
                t_Amount = format_currency (Amount r)\<rparr>) fd
   \<and> map t_Amount (display_table fd) = map (\<lambda>r. format_currency (Amount r)) fd"
  unfolding display_table_rows by (simp add: comp_def del: format_currency.simps)

theorem display_table_exact_witness:
  "map t_Amount (display_table [r1, r2]) = [''$100.00'', ''$300.00'']"
proof -
  have f: "format_currency (Amount r1) = ''$100.00''" "format_currency (Amount r2) = ''$300.00''"
    by (simp_all add: example_rows format_eval)
  show ?thesis
    using display_table_exact [of "[r1, r2]"] by (simp add: f del: format_currency.simps)
qed

section \<open>Properties of the page\<close>

text \<open>
  C8: when reading the workbook or selecting its columns raises an exception, the run still
  ends: the page shows the title, an error message that carries the text of the exception,
  and the file uploader; it shows no chart, metric or table.
\<close>

theorem load_error_shown:
  "app (Inl (Exception cause)) p s False =
     [Title ''Dynamic Sunburst Diagram of 2024 Grants'',
      Error (''Error loading default data: '' @ cause),
      File_uploader ''Upload the Grants Excel File''] \<and>
   Error (''Error loading default data: '' @ cause) \<in> set (app (Inl (Exception cause)) p s uploaded) \<and>
   File_uploader ''Upload the Grants Excel File'' \<in> set (app (Inl (Exception cause)) p s uploaded) \<and>
   metrics_shown (app (Inl (Exception cause)) p s uploaded) = []"
  by (simp add: app_def)

theorem load_error_shown_witness:
  "app (Inl (Exception ''No such file or directory'')) ''All'' ''All'' False =
     [Title ''Dynamic Sunburst Diagram of 2024 Grants'',
      Error ''Error loading default data: No such file or directory'',
      File_uploader ''Upload the Grants Excel File'']"
  using load_error_shown [of "''No such file or directory''" "''All''" "''All''" False]
  by simp

section \<open>Properties of the CSV export\<close>

lemma quoted_body:
  "foldl step (In_quoted, acc, cur, recs) (double_quotes f @ [quotechar])
     = (Quote_in_quoted, rev f @ acc, cur, recs)"
  by (induction f arbitrary: acc) simp_all

lemma plain_body:
  "\<not> list_ex special f \<Longrightarrow> st = Field_start \<or> st = In_plain \<Longrightarrow>
   foldl step (st, acc, cur, recs) f
     = (if f = [] then st else In_plain, rev f @ acc, cur, recs)"
proof (induction f arbitrary: st acc)
  case Nil
  then show ?case by simp
next
  case (Cons c f)
  from Cons.prems have c: "\<not> special c" and f: "\<not> list_ex special f"
    by simp_all
  from c Cons.prems(2) have "step (st, acc, cur, recs) c = (In_plain, c # acc, cur, recs)"
    by (auto simp: special_def plain_char_def)
  then show ?case
    using Cons.IH [OF f, of In_plain "c # acc"] by simp
qed

lemma field_read:
  "\<exists>m. ready m \<and>
     foldl step (Field_start, [], cur, recs) (csv_field f) = (m, rev f, cur, recs)"
proof (cases "list_ex special f")
  case True
  have "foldl step (Field_start, [], cur, recs) (csv_field f)
      = foldl step (In_quoted, [], cur, recs) (double_quotes f @ [quotechar])"
    using True by (simp add: csv_field_def plain_char_def quotechar_def)
  also have "\<dots> = (Quote_in_quoted, rev f, cur, recs)"
    using quoted_body [of "[]" cur recs f] by simp
  finally show ?thesis
    by (auto simp: ready_def)
next
  case False
  then have "foldl step (Field_start, [], cur, recs) (csv_field f)
      = (if f = [] then Field_start else In_plain, rev f, cur, recs)"
    using plain_body [of f Field_start "[]" cur recs] by (simp add: csv_field_def)
  then show ?thesis
    by (auto simp: ready_def)
qed

lemma comma_step:
  "ready m \<Longrightarrow> step (m, fld, cur, recs) CHR '','' = (Field_start, [], rev fld # cur, recs)"
  by (auto simp: ready_def plain_char_def quotechar_def)

lemma newline_step:
  "ready m \<Longrightarrow>
   step (m, fld, cur, recs) CHR 0x0A = (Field_start, [], [], rev (rev fld # cur) # recs)"
  by (auto simp: ready_def plain_char_def quotechar_def)

lemma line_read:
  "fs \<noteq> [] \<Longrightarrow>
   foldl step (Field_start, [], cur, recs) (csv_line fs)
     = (Field_start, [], [], rev (rev fs @ cur) # recs)"
proof (induction fs arbitrary: cur rule: csv_fields.induct)
  case 1
  then show ?case by simp
next
  case (2 f)
  obtain m where m: "ready m"
    "foldl step (Field_start, [], cur, recs) (csv_field f) = (m, rev f, cur, recs)"
    using field_read by blast
  show ?case
    by (simp add: csv_line_def m newline_step)
next
  case (3 f g fs)
  obtain m where m: "ready m"
    "foldl step (Field_start, [], cur, recs) (csv_field f) = (m, rev f, cur, recs)"
    using field_read by blast
  have "foldl step (Field_start, [], cur, recs) (csv_line (f # g # fs))
      = foldl step (Field_start, [], f # cur, recs) (csv_line (g # fs))"
    by (simp add: csv_line_def m comma_step)
  also have "\<dots> = (Field_start, [], [], rev (rev (g # fs) @ f # cur) # recs)"
    by (rule "3.IH") simp
  finally show ?case by simp
qed

lemma lines_read:
  "\<forall>l \<in> set ls. l \<noteq> [] \<Longrightarrow>
   foldl step (Field_start, [], [], recs) (concat (map csv_line ls))
     = (Field_start, [], [], rev ls @ recs)"
proof (induction ls arbitrary: recs)
  case Nil
  then show ?case by simp
next
  case (Cons l ls)
  then have l: "l \<noteq> []" and ls: "\<forall>l \<in> set ls. l \<noteq> []"
    by simp_all
  show ?case
    using Cons.IH [OF ls, of "l # recs"] by (simp add: line_read [OF l])
qed

lemma read_csv_lines:
  assumes "\<forall>l \<in> set ls. l \<noteq> []"
  shows "read_csv (concat (map csv_line ls)) = ls"
  by (simp add: read_csv_def lines_read [OF assms])

lemma to_csv_lines:
  "to_csv t = concat (map csv_line (table_columns # map table_cells t))"
  by (simp add: to_csv_def comp_def)

subsection \<open>Reading a currency text\<close>

lemma is_digit_digit: "is_digit (digit n)"
proof -
  have "i < 10 \<Longrightarrow> is_digit (''0123456789'' ! i)" for i :: nat
    unfolding is_digit_def by (rule nth_mem) simp
  then show ?thesis
    by (simp add: digit_def)
qed

lemma digit_value_digit: "digit_value (digit n) = n mod 10"
proof -
  have "i < 10 \<Longrightarrow> digit_value (''0123456789'' ! i) = i" for i :: nat
    by (auto simp: digit_value_def less_Suc_eq numeral_eq_Suc nth_Cons')
  from this [of "n mod 10"] show ?thesis
    by (simp add: digit_def)
qed

lemma digits_value_snoc: "digits_value (s @ [digit k]) = 10 * digits_value s + k mod 10"
  by (simp add: digits_value_def digit_value_digit)

lemma filter_str_nat: "filter is_digit (str_nat n) = str_nat n"
  by (induction n rule: str_nat.induct) (subst (1 2) str_nat.simps, simp add: is_digit_digit)

lemma digits_value_str_nat: "digits_value (str_nat n) = n"
proof (induction n rule: str_nat.induct)
  case (1 n)
  show ?case
  proof (cases "n < 10")
    case True
    have "digits_value ([] @ [digit n]) = n"
      unfolding digits_value_snoc using True by (simp add: digits_value_def)
    then show ?thesis
      using True by (subst str_nat.simps) simp
  next
    case False
    then have "digits_value (str_nat (n div 10)) = n div 10"
      using 1 by simp
    then show ?thesis
      using False by (subst str_nat.simps) (simp add: digits_value_snoc)
  qed
qed


lemma digits2: "10 * (10 * (c div 100) + c div 10 mod 10) + c mod 10 = (c::nat)"
proof -
  have "c div 100 = c div 10 div 10"
    by (simp add: div_mult2_eq)
  then have "10 * (c div 100) + c div 10 mod 10 = c div 10"
    by (simp only: mult_div_mod_eq)
  then show ?thesis
    by (simp only: mult_div_mod_eq)
qed

lemma digits3:
  "10 * (10 * (10 * (n div 1000) + n div 100 mod 10) + n div 10 mod 10) + n mod 10 = (n::nat)"
proof -
  have "n div 1000 = n div 100 div 10"
    by (simp add: div_mult2_eq)
  then have "10 * (n div 1000) + n div 100 mod 10 = n div 100"
    by (simp only: mult_div_mod_eq)
  then show ?thesis
    by (simp only: digits2)
qed

lemma digits_value_thousands: "digits_value (filter is_digit (thousands n)) = n"
proof (induction n rule: thousands.induct)
  case (1 n)
  show ?case
  proof (cases "n < 1000")
    case True
    then show ?thesis
      by (subst thousands.simps) (simp add: filter_str_nat digits_value_str_nat)
  next
    case False
    let ?s = "filter is_digit (thousands (n div 1000))"
    have comma: "\<not> is_digit CHR '',''"
      by (simp add: is_digit_def)
    have "filter is_digit (thousands n) =
        ((?s @ [digit (n div 100)]) @ [digit (n div 10)]) @ [digit n]"
      using False by (subst thousands.simps) (simp add: is_digit_digit comma)
    then have "digits_value (filter is_digit (thousands n)) =
        10 * (10 * (10 * digits_value ?s + n div 100 mod 10) + n div 10 mod 10) + n mod 10"
      by (simp only: digits_value_snoc)
    also have "digits_value ?s = n div 1000"
      using 1 False by simp
    finally show ?thesis
      by (simp only: digits3)
  qed
qed

lemma set_str_nat:
  assumes "c \<in> set (str_nat n)"
  shows "is_digit c"
proof -
  from assms have "c \<in> set (filter is_digit (str_nat n))"
    by (simp only: filter_str_nat)
  then show ?thesis by simp
qed

lemma set_thousands: "c \<in> set (thousands n) \<Longrightarrow> is_digit c \<or> c = CHR '',''"
proof (induction n rule: thousands.induct)
  case (1 n)
  show ?case
  proof (cases "n < 1000")
    case True
    with "1.prems" show ?thesis
      by (subst (asm) thousands.simps) (simp add: set_str_nat)
  next
    case False
    with "1.prems" have "c \<in> set (thousands (n div 1000)) \<or> c = CHR '','' \<or> is_digit c"
      by (subst (asm) thousands.simps) (auto simp: is_digit_digit)
    with 1 False show ?thesis
      by auto
  qed
qed


lemma parse_format:
  assumes "0 \<le> x"
  shows "parse_currency (format_currency (Num x)) = of_int (round_half_even (x * 100)) / 100"
proof -
  define c where "c = nat (round_half_even (\<bar>x\<bar> * 100))"
  have nd: "\<not> is_digit CHR ''$''" "\<not> is_digit CHR ''.''" "\<not> is_digit CHR ''-''"
    by (simp_all add: is_digit_def)
  have f: "format_currency (Num x) = ''$'' @ thousands (c div 100) @ ''.'' @ [digit (c div 10), digit c]"
    using assms by (simp add: format_2f_def Let_def c_def)
  have "CHR ''-'' \<notin> set (thousands (c div 100))"
    using set_thousands [of "CHR ''-''" "c div 100"] nd by auto
  moreover have "CHR ''-'' \<noteq> digit k" for k
    using is_digit_digit [of k] nd by auto
  ultimately have sign: "CHR ''-'' \<notin> set (format_currency (Num x))"
    unfolding f by simp
  have "filter is_digit (format_currency (Num x)) =
      (filter is_digit (thousands (c div 100)) @ [digit (c div 10)]) @ [digit c]"
    unfolding f by (simp add: nd is_digit_digit)
  then have "digits_value (filter is_digit (format_currency (Num x))) =
      10 * (10 * (c div 100) + c div 10 mod 10) + c mod 10"
    by (simp only: digits_value_snoc digits_value_thousands)
  also have "\<dots> = c"
    by (rule digits2)
  finally have v: "digits_value (filter is_digit (format_currency (Num x))) = c" .
  have "0 \<le> round_half_even (x * 100)"
    using assms by (auto simp: round_half_even_def Let_def intro: add_nonneg_nonneg)
  then have "of_nat c = (of_int (round_half_even (x * 100)) :: rat)"
    using assms by (simp add: c_def)
  then show ?thesis
    unfolding parse_currency_def using sign v by (simp del: format_currency.simps)
qed

lemma round_half_even_of_nat: "round_half_even (of_nat k) = int k"
  by (simp add: round_half_even_def)

lemma parse_format_cents: "parse_currency (format_currency (Num (of_nat k / 100))) = of_nat k / 100"
  using parse_format [of "of_nat k / 100"] by (simp add: round_half_even_of_nat)

text \<open>
  C7: the exported text read back gives the header \<^verbatim>\<open>table_columns\<close> (program, strategy,
  organization, link, amount) and then one record per filtered record, in order, each with
  the cells of its table row; so the number of records is that of the filtered dataset, and
  the amounts read back are the amounts of the filtered dataset in their currency format.
  When the amounts are whole numbers of cents, reading the currency texts gives the amounts
  themselves.
\<close>

theorem to_csv_roundtrip:
  "read_csv (to_csv (display_table fd)) = table_columns # map table_cells (display_table fd) \<and>
   hd (read_csv (to_csv (display_table fd))) =
     [''Top Level Primary Program'', ''Primary Strategy'', ''Organization: Organization Name'',
      ''Salesforce Link'', ''Amount''] \<and>
   length (tl (read_csv (to_csv (display_table fd)))) = length fd \<and>
   map (\<lambda>cells. cells ! 4) (tl (read_csv (to_csv (display_table fd)))) =
     map (\<lambda>r. format_currency (Amount r)) fd \<and>
   ((\<forall>r \<in> set fd. \<exists>k. Amount r = Num (of_nat k / 100)) \<longrightarrow>
    map (\<lambda>cells. Num (parse_currency (cells ! 4))) (tl (read_csv (to_csv (display_table fd)))) =
      map Amount fd)"
proof -
  let ?t = "display_table fd"
  have "\<forall>l \<in> set (table_columns # map table_cells ?t). l \<noteq> []"
    by (auto simp: table_columns_def table_cells_def)
  then have r: "read_csv (to_csv ?t) = table_columns # map table_cells ?t"
    unfolding to_csv_lines by (rule read_csv_lines)
  have len: "length ?t = length fd"
    by (simp add: display_table_rows)
  have cell: "table_cells r ! 4 = t_Amount r" for r
    by (simp add: table_cells_def)
  have "map (\<lambda>cells. cells ! 4) (map table_cells ?t) = map t_Amount ?t"
    by (simp add: cell)
  also have "\<dots> = map (\<lambda>r. format_currency (Amount r)) fd"
    unfolding display_table_rows by (simp add: comp_def del: format_currency.simps)
  finally have amounts:
    "map (\<lambda>cells. cells ! 4) (map table_cells ?t) = map (\<lambda>r. format_currency (Amount r)) fd" .
  have numbers: "map (\<lambda>cells. Num (parse_currency (cells ! 4))) (map table_cells ?t) = map Amount fd"
    if cents: "\<forall>r \<in> set fd. \<exists>k. Amount r = Num (of_nat k / 100)"
  proof -
    have "map (\<lambda>cells. Num (parse_currency (cells ! 4))) (map table_cells ?t)
        = map (\<lambda>s. Num (parse_currency s)) (map (\<lambda>cells. cells ! 4) (map table_cells ?t))"
      by (simp add: comp_def)
    also have "\<dots> = map (\<lambda>r. Num (parse_currency (format_currency (Amount r)))) fd"
      unfolding amounts by (simp add: comp_def del: format_currency.simps)
    also have "\<dots> = map Amount fd"
    proof (rule map_cong [OF refl])
      fix r assume "r \<in> set fd"
      with cents obtain k where "Amount r = Num (of_nat k / 100)"
        by blast
      then show "Num (parse_currency (format_currency (Amount r))) = Amount r"
        by (simp only: parse_format_cents)
    qed
    finally show ?thesis .
  qed
  show ?thesis
    unfolding r list.sel
  proof (intro conjI impI)
    show "table_columns # map table_cells ?t = table_columns # map table_cells ?t" ..
    show "table_columns =
      [''Top Level Primary Program'', ''Primary Strategy'', ''Organization: Organization Name'',
       ''Salesforce Link'', ''Amount'']"
      by (simp add: table_columns_def)
    show "length (map table_cells ?t) = length fd"
      by (simp add: len)
    show "map (\<lambda>cells. cells ! 4) (map table_cells ?t) = map (\<lambda>r. format_currency (Amount r)) fd"
      by (rule amounts)
    show "map (\<lambda>cells. Num (parse_currency (cells ! 4))) (map table_cells ?t) = map Amount fd"
      if "\<forall>r \<in> set fd. \<exists>k. Amount r = Num (of_nat k / 100)"
      using that by (rule numbers)
  qed
qed

theorem to_csv_roundtrip_witness:
  \<open>map (\<lambda>cells. cells ! 4) (tl (read_csv (to_csv (display_table [r_quotes, r2])))) =
     [''$1,234,567.00'', ''$300.00''] \<and>
   map (\<lambda>cells. cells ! 0) (tl (read_csv (to_csv (display_table [r_quotes, r2])))) =
     [''Prog, A'', ''ProgA''] \<and>
   length (tl (read_csv (to_csv (display_table [r_quotes, r2])))) = 2 \<and>
   map (\<lambda>cells. Num (parse_currency (cells ! 4)))
     (tl (read_csv (to_csv (display_table [r_quotes, r2])))) = [Num 1234567, Num 300]\<close>
proof -
  have f: "format_currency (Amount r_quotes) = ''$1,234,567.00''"
    "format_currency (Amount r2) = ''$300.00''"
    by (simp_all add: r_quotes_def example_rows format_eval)
  have p: "Top_Level_Primary_Program r_quotes = Some ''Prog, A''"
    "Top_Level_Primary_Program r2 = Some ''ProgA''"
    by (simp_all add: r_quotes_def example_rows)
  have a: "Amount r_quotes = Num 1234567" "Amount r2 = Num 300"
    by (simp_all add: r_quotes_def example_rows)
  have "Amount r_quotes = Num (of_nat 123456700 / 100)" "Amount r2 = Num (of_nat 30000 / 100)"
    by (simp_all add: a)
  then have cents: "\<forall>r \<in> set [r_quotes, r2]. \<exists>k. Amount r = Num (of_nat k / 100)"
    by (metis list.set_cases set_ConsD empty_iff empty_set)
  note t = to_csv_roundtrip [of "[r_quotes, r2]"]
  let ?parsed = "read_csv (to_csv (display_table [r_quotes, r2]))"
  from t have r: "?parsed = table_columns # map table_cells (display_table [r_quotes, r2])"
    by (rule conjunct1)
  from t have am: "map (\<lambda>cells. cells ! 4) (tl ?parsed) =
      map (\<lambda>r. format_currency (Amount r)) [r_quotes, r2]"
    by blast
  from t have len: "length (tl ?parsed) = length [r_quotes, r2]"
    by blast
  from t cents have n: "map (\<lambda>cells. Num (parse_currency (cells ! 4))) (tl ?parsed) =
      map Amount [r_quotes, r2]"
    by blast
  have 1: "map (\<lambda>cells. cells ! 4) (tl ?parsed) = [''$1,234,567.00'', ''$300.00'']"
    unfolding am by (simp add: f del: format_currency.simps)
  have 2: "map (\<lambda>cells. cells ! 0) (tl ?parsed) = [''Prog, A'', ''ProgA'']"
    unfolding r by (simp add: display_table_rows table_cells_def p del: format_currency.simps)
  have 3: "length (tl ?parsed) = 2"
    unfolding len by simp
  have 4: "map (\<lambda>cells. Num (parse_currency (cells ! 4))) (tl ?parsed) = [Num 1234567, Num 300]"
    unfolding n by (simp add: a)
  from 1 2 3 4 show ?thesis
    by (intro conjI)
qed


end
